theory Spec2Isabelle
  imports Main "HOL-Library.List_Lexorder" "HOL-Library.Char_ord" "HOL-Library.Sublist"
begin

section \<open>Python values used by \<^verbatim>\<open>agent_build/tools/build_step.py\<close>\<close>

text \<open>
  A \<^verbatim>\<open>str\<close> is a list of code points; the model covers the code points below 256, one
  \<^typ>\<open>char\<close> each. A \<^verbatim>\<open>bytes\<close> value is a list of bytes, one \<^typ>\<open>char\<close> each.
  \<^verbatim>\<open>str.encode()\<close> is UTF-8, \<^verbatim>\<open>str.lower()\<close> maps \<^verbatim>\<open>A-Z\<close> and the upper-case letters of
  Latin-1 to their lower-case partners. The order of \<^verbatim>\<open>str\<close> is the order of code points
  (\<^verbatim>\<open>Char_ord\<close>), lifted to strings and to tuples lexicographically (\<^verbatim>\<open>List_Lexorder\<close>).
\<close>

type_synonym bytes = "char list"

definition utf8 :: "char \<Rightarrow> bytes" where
  "utf8 c = (let n = (of_char c :: nat) in
     if n < 128 then [c] else [char_of (192 + n div 64), char_of (128 + n mod 64)])"

definition encode :: "string \<Rightarrow> bytes" where
  "encode s = concat (map utf8 s)"

definition lower_char :: "char \<Rightarrow> char" where
  "lower_char c = (let n = (of_char c :: nat) in
     if (65 \<le> n \<and> n \<le> 90) \<or> (192 \<le> n \<and> n \<le> 222 \<and> n \<noteq> 215) then char_of (n + 32) else c)"

definition lower :: "string \<Rightarrow> string" where
  "lower s = map lower_char s"

text \<open>\<^verbatim>\<open>sep.join(xs)\<close>.\<close>

fun join :: "string \<Rightarrow> string list \<Rightarrow> string" where
  "join sep [] = []"
| "join sep [x] = x"
| "join sep (x # y # ys) = x @ sep @ join sep (y # ys)"

subsection \<open>\<^verbatim>\<open>hashlib.sha256\<close>\<close>

text \<open>
  The digest function itself belongs to the Python library; it is the parameter \<open>H\<close>
  (from the fed bytes to the digest bytes). A hash object is modelled by the bytes fed to
  it so far: \<^verbatim>\<open>update\<close> appends, \<^verbatim>\<open>hexdigest\<close> prints the digest in lower-case
  hexadecimal digits.
\<close>

definition sha256_new :: bytes where
  "sha256_new = []"

definition sha256_update :: "bytes \<Rightarrow> bytes \<Rightarrow> bytes" where
  "sha256_update h b = h @ b"

definition hex_digit :: "nat \<Rightarrow> char" where
  "hex_digit n = (''0123456789abcdef'') ! (n mod 16)"

definition hex_byte :: "char \<Rightarrow> string" where
  "hex_byte c = [hex_digit ((of_char c :: nat) div 16), hex_digit ((of_char c :: nat) mod 16)]"

definition hexlify :: "bytes \<Rightarrow> string" where
  "hexlify b = concat (map hex_byte b)"

definition hexdigest :: "(bytes \<Rightarrow> bytes) \<Rightarrow> bytes \<Rightarrow> string" where
  "hexdigest H h = hexlify (H h)"

subsection \<open>Errors\<close>

datatype error =
    FileNotFoundError
  | IsADirectoryError
  | ValueError
  | UnicodeDecodeError
  | UnboundLocalError
  | AttributeError
  | CalledProcessError
  | OSError
  | DeploymentStepError string

text \<open>The results of a list of fallible computations, or the first error.\<close>

fun collect :: "(error + 'a) list \<Rightarrow> error + 'a list" where
  "collect [] = Inr []"
| "collect (Inl e # rs) = Inl e"
| "collect (Inr x # rs) = (case collect rs of Inl e \<Rightarrow> Inl e | Inr xs \<Rightarrow> Inr (x # xs))"

subsection \<open>\<^verbatim>\<open>pathlib\<close> paths (POSIX flavour)\<close>

text \<open>
  A path relative to \<^verbatim>\<open>constants.SOURCE_ROOT\<close> is the list of its components. Python
  compares two such paths by their component tuples, which is the lexicographic order of
  \<^typ>\<open>string list\<close>.
\<close>

type_synonym path = "string list"

definition str_path :: "path \<Rightarrow> string" where
  "str_path p = (if p = [] then ''.'' else join ''/'' p)"

text \<open>A general path: anchored at the root \<^verbatim>\<open>/\<close> or not, and its components.\<close>

datatype pypath = PyPath (is_absolute: bool) (parts: "string list")

definition str_pypath :: "pypath \<Rightarrow> string" where
  "str_pypath p = (if is_absolute p then CHR ''/'' # join ''/'' (parts p) else str_path (parts p))"

text \<open>\<^verbatim>\<open>str.split('/')\<close>, and \<^verbatim>\<open>pl.Path(s)\<close>: empty components and \<^verbatim>\<open>.\<close> are dropped.\<close>

fun split_slash :: "string \<Rightarrow> string \<Rightarrow> string list" where
  "split_slash cur [] = [cur]"
| "split_slash cur (c # cs) =
     (if c = CHR ''/'' then cur # split_slash [] cs else split_slash (cur @ [c]) cs)"

definition Path :: "string \<Rightarrow> pypath" where
  "Path s = PyPath (s \<noteq> [] \<and> hd s = CHR ''/'')
     (filter (\<lambda>c. c \<noteq> [] \<and> c \<noteq> ''.'') (split_slash [] s))"

text \<open>\<^verbatim>\<open>p.relative_to(base)\<close> for an absolute \<open>base\<close> given by its components.\<close>

definition relative_to :: "pypath \<Rightarrow> string list \<Rightarrow> error + path" where
  "relative_to p base =
     (if is_absolute p \<and> prefix base (parts p) then Inr (drop (length base) (parts p))
      else Inl ValueError)"

text \<open>\<^verbatim>\<open>PurePath.suffix\<close>: the last dot of the final component and what follows it.\<close>

definition rfind_dot :: "string \<Rightarrow> nat option" where
  "rfind_dot name =
     (case filter (\<lambda>i. name ! i = CHR ''.'') (rev [0..<length name]) of
        [] \<Rightarrow> None | i # _ \<Rightarrow> Some i)"

definition suffix_of :: "path \<Rightarrow> string" where
  "suffix_of p =
     (if p = [] then []
      else (let name = last p in
        case rfind_dot name of
          None \<Rightarrow> []
        | Some i \<Rightarrow> (if 0 < i \<and> i < length name - 1 then drop i name else [])))"

subsection \<open>\<^verbatim>\<open>str.splitlines\<close>\<close>

text \<open>Line boundaries among the code points below 256; \<^verbatim>\<open>\r\n\<close> is one boundary.\<close>

definition line_boundary :: "char \<Rightarrow> bool" where
  "line_boundary c = ((of_char c :: nat) \<in> {10, 11, 12, 13, 28, 29, 30, 133})"

fun splitlines_from :: "string \<Rightarrow> string \<Rightarrow> string list" where
  "splitlines_from cur [] = (if cur = [] then [] else [cur])"
| "splitlines_from cur [c] =
     (if line_boundary c then [cur] else [cur @ [c]])"
| "splitlines_from cur (c # d # cs) =
     (if (of_char c :: nat) = 13 \<and> (of_char d :: nat) = 10 then cur # splitlines_from [] cs
      else if line_boundary c then cur # splitlines_from [] (d # cs)
      else splitlines_from (cur @ [c]) (d # cs))"

definition splitlines :: "string \<Rightarrow> string list" where
  "splitlines s = splitlines_from [] s"

subsection \<open>The source tree\<close>

text \<open>
  The project tree under \<^verbatim>\<open>constants.SOURCE_ROOT\<close> holds regular files and directories,
  each under its path relative to the root. The tree is listed in the order in which the
  file system iterates over it. What a glob pattern matches (\<^verbatim>\<open>Path.glob\<close>), what
  \<^verbatim>\<open>PurePath.match\<close> accepts and how \<^verbatim>\<open>read_text\<close> decodes bytes belong to the Python
  library and the locale; they are parameters, as are the flags of
  \<^verbatim>\<open>agent_build.tools.common\<close>.
\<close>

datatype node = File bytes | Dir

text \<open>
  An external command as the helpers of \<^verbatim>\<open>agent_build.tools.common\<close> receive it: the
  argument list, the environment variables set for it, and the working directory; or a
  shell command line. What a command does and prints is up to the outside world: given the
  commands issued so far, \<open>command_output\<close> is the output of one that succeeds and \<open>None\<close>
  for one that fails.
\<close>

datatype call =
    Call (args: "string list") (env_set: "(string \<times> string) list") (cwd: "string option")
  | Shell string

record env =
  sha256_digest :: "bytes \<Rightarrow> bytes"
  command_output :: "call list \<Rightarrow> call \<Rightarrow> string option"
  SOURCE_ROOT :: "string list"
  tree :: "(path \<times> node) list"
  glob_matches :: "string \<Rightarrow> path \<Rightarrow> bool"
  path_match :: "pypath \<Rightarrow> string \<Rightarrow> bool"
  decode :: "bytes \<Rightarrow> string option"
  IN_DOCKER :: bool
  IN_CICD :: bool

text \<open>\<^verbatim>\<open>constants.SOURCE_ROOT / p\<close> for a relative \<open>p\<close>.\<close>

definition root_join :: "env \<Rightarrow> path \<Rightarrow> pypath" where
  "root_join e p = PyPath True (SOURCE_ROOT e @ p)"

definition lookup :: "env \<Rightarrow> pypath \<Rightarrow> node option" where
  "lookup e p =
     (case relative_to p (SOURCE_ROOT e) of Inl err \<Rightarrow> None | Inr r \<Rightarrow> map_of (tree e) r)"

definition is_dir :: "env \<Rightarrow> pypath \<Rightarrow> bool" where
  "is_dir e p = (lookup e p = Some Dir)"

definition read_bytes :: "env \<Rightarrow> pypath \<Rightarrow> error + bytes" where
  "read_bytes e p =
     (case lookup e p of
        None \<Rightarrow> Inl FileNotFoundError
      | Some Dir \<Rightarrow> Inl IsADirectoryError
      | Some (File b) \<Rightarrow> Inr b)"

definition read_text :: "env \<Rightarrow> pypath \<Rightarrow> error + string" where
  "read_text e p =
     (case read_bytes e p of
        Inl err \<Rightarrow> Inl err
      | Inr b \<Rightarrow> (case decode e b of None \<Rightarrow> Inl UnicodeDecodeError | Some t \<Rightarrow> Inr t))"

text \<open>
  \<^verbatim>\<open>constants.SOURCE_ROOT.glob(pattern)\<close>: the paths of the tree that the pattern matches, in
  the file system's order; and \<^verbatim>\<open>p.glob("**/*")\<close>: everything below \<open>p\<close>.
\<close>

definition glob :: "env \<Rightarrow> string \<Rightarrow> pypath list" where
  "glob e pattern = map (root_join e) (filter (glob_matches e pattern) (map fst (tree e)))"

definition glob_below :: "env \<Rightarrow> pypath \<Rightarrow> pypath list" where
  "glob_below e p =
     (case relative_to p (SOURCE_ROOT e) of
        Inl err \<Rightarrow> []
      | Inr r \<Rightarrow> map (root_join e) (filter (strict_prefix r) (map fst (tree e))))"

section \<open>\<^verbatim>\<open>calculate_files_checksum\<close>\<close>

text \<open>The \<^verbatim>\<open>for\<close> loop over the sorted paths; \<open>h\<close> is the hash object.\<close>

fun checksum_loop :: "env \<Rightarrow> bytes \<Rightarrow> path list \<Rightarrow> error + bytes" where
  "checksum_loop e h [] = Inr h"
| "checksum_loop e h (file_path # rest) =
     (let h1 = sha256_update h (encode (str_path file_path));
          abs_path = root_join e file_path in
      case read_bytes e abs_path of
        Inl err \<Rightarrow> Inl err
      | Inr content \<Rightarrow> checksum_loop e (sha256_update h1 content) rest)"

definition calculate_files_checksum :: "env \<Rightarrow> path list \<Rightarrow> error + string" where
  "calculate_files_checksum e files =
     (let files = sort files in
      case checksum_loop e sha256_new (sort files) of
        Inl err \<Rightarrow> Inl err
      | Inr h \<Rightarrow> Inr (hexdigest (sha256_digest e) h))"

text \<open>
  The checksum as the specification words it: the digest over, for each path in sorted
  order, the bytes of the relative path string followed by the bytes of the file.
\<close>

definition path_then_content :: "env \<Rightarrow> path \<Rightarrow> error + bytes" where
  "path_then_content e p =
     (case read_bytes e (root_join e p) of
        Inl err \<Rightarrow> Inl err
      | Inr content \<Rightarrow> Inr (encode (str_path p) @ content))"

definition files_checksum_spec :: "env \<Rightarrow> path list \<Rightarrow> error + string" where
  "files_checksum_spec e files =
     (case collect (map (path_then_content e) (sort files)) of
        Inl err \<Rightarrow> Inl err
      | Inr chunks \<Rightarrow> Inr (hexlify (sha256_digest e (concat chunks))))"

section \<open>Build steps\<close>

text \<open>
  \<^verbatim>\<open>constants.Architecture\<close> is an enumeration whose members have a \<^verbatim>\<open>value\<close> and a Docker
  platform string. \<^verbatim>\<open>DockerImageSpec\<close> is the data class of the source.
\<close>

datatype architecture = Architecture (arch_value: string) (as_docker_platform: string)

datatype docker_image_spec =
  DockerImageSpec (image_name: string) (image_architecture: architecture)

text \<open>
  What \<^verbatim>\<open>ScriptBuildStep\<close> adds to \<^verbatim>\<open>BuildStep\<close>: the script, the flag of a step that only
  prepares the environment of later steps, and the attribute \<^verbatim>\<open>base_docker_image\<close> that
  the constructor sets.
\<close>

datatype script_part =
  ScriptPart (script_path: pypath) (is_dependency_step: bool)
    (base_docker_image: "docker_image_spec option")

text \<open>
  A step object: its name, the class attributes \<^verbatim>\<open>TRACKED_FILE_GLOBS\<close> and
  \<^verbatim>\<open>NO_CI_CD_CACHE\<close>, the steps it depends on, its settings (a dictionary in insertion
  order; a value may be \<^verbatim>\<open>None\<close>), its base step, the \<^verbatim>\<open>cacheable\<close> flag of its CI/CD
  settings, and the script part when it is a \<^verbatim>\<open>ScriptBuildStep\<close>. Steps are built bottom-up
  by their constructors, so a step graph is a term; a step object used in two places occurs
  as the same term in both.
\<close>

datatype step =
  Step (name: string)
    (TRACKED_FILE_GLOBS: "pypath list")
    (NO_CI_CD_CACHE: bool)
    (dependency_steps: "step list")
    (additional_settings: "(string \<times> string option) list")
    (base_step: "step option")
    (cacheable: bool)
    (script: "script_part option")

subsection \<open>\<^verbatim>\<open>tracked_file_paths\<close>\<close>

text \<open>\<^verbatim>\<open>_tracked_file_globs\<close>: the class attribute, and for a script step its script.\<close>

definition tracked_file_globs :: "step \<Rightarrow> pypath list" where
  "tracked_file_globs s =
     (let globs = TRACKED_FILE_GLOBS s in
      case script s of None \<Rightarrow> globs | Some sc \<Rightarrow> globs @ [script_path sc])"

text \<open>
  A Python set is a list without repetitions, in some order. The first loop resolves the
  globs: an absolute glob is taken relative to the source root (\<^verbatim>\<open>ValueError\<close> when it is
  not below it).
\<close>

definition set_union :: "'a list \<Rightarrow> 'a list \<Rightarrow> 'a list" where
  "set_union xs ys = xs @ filter (\<lambda>y. y \<notin> set xs) (remdups ys)"

fun resolve_globs :: "env \<Rightarrow> pypath list \<Rightarrow> pypath list \<Rightarrow> error + pypath list" where
  "resolve_globs e found_paths [] = Inr found_paths"
| "resolve_globs e found_paths (file_glob # rest) =
     (case (if is_absolute file_glob then relative_to file_glob (SOURCE_ROOT e)
            else Inr (parts file_glob)) of
        Inl err \<Rightarrow> Inl err
      | Inr rel_glob \<Rightarrow>
          (let glob_paths = glob e (str_path rel_glob) in
           resolve_globs e (set_union found_paths glob_paths) rest))"

text \<open>
  One line of \<^verbatim>\<open>.dockerignore\<close> as a pattern: a leading \<^verbatim>\<open>/\<close> is removed. The second loop
  collects the found paths that match a non-empty line.
\<close>

definition ignore_glob :: "string \<Rightarrow> string" where
  "ignore_glob line =
     (let g = Path line in
      str_pypath (if is_absolute g then PyPath False (parts g) else g))"

definition paths_excluded_by :: "env \<Rightarrow> string list \<Rightarrow> pypath list \<Rightarrow> pypath list" where
  "paths_excluded_by e lines found_paths =
     concat (map (\<lambda>line. filter (\<lambda>f. path_match e f (ignore_glob line)) found_paths)
       (filter (\<lambda>line. line \<noteq> []) lines))"

text \<open>The third loop: everything below an excluded directory is excluded as well.\<close>

definition with_children :: "env \<Rightarrow> pypath list \<Rightarrow> pypath list" where
  "with_children e paths_excluded =
     paths_excluded @
     concat (map (\<lambda>ex_path. if is_dir e ex_path then glob_below e ex_path else []) paths_excluded)"

definition dockerignore_path :: "env \<Rightarrow> pypath" where
  "dockerignore_path e = root_join e [''.dockerignore'']"

definition tracked_file_paths :: "env \<Rightarrow> step \<Rightarrow> error + path list" where
  "tracked_file_paths e s =
     (case resolve_globs e [] (tracked_file_globs s) of
        Inl err \<Rightarrow> Inl err
      | Inr found_paths \<Rightarrow>
     (case read_text e (dockerignore_path e) of
        Inl err \<Rightarrow> Inl err
      | Inr dockerignore_content \<Rightarrow>
     (let paths_excluded = paths_excluded_by e (splitlines dockerignore_content) found_paths;
          paths_excluded = with_children e paths_excluded;
          filtered_paths = filter (\<lambda>p. p \<notin> set paths_excluded) found_paths;
          filtered_paths = filter (\<lambda>p. \<not> is_dir e p) filtered_paths;
          filtered_paths = filtered_paths @ [dockerignore_path e]
      in case collect (map (\<lambda>p. relative_to p (SOURCE_ROOT e)) filtered_paths) of
           Inl err \<Rightarrow> Inl err
         | Inr filtered_paths \<Rightarrow> Inr (sort filtered_paths))))"

subsection \<open>\<^verbatim>\<open>json.dumps(..., sort_keys=True, indent=4)\<close>\<close>

datatype json = JNull | JString string | JList "json list" | JDict "(string \<times> json) list"

text \<open>
  Strings are written with \<^verbatim>\<open>ensure_ascii\<close>: the quote, the backslash and every code point
  outside the printable ASCII range are escaped.
\<close>

definition escape_char :: "char \<Rightarrow> string" where
  "escape_char c = (let n = (of_char c :: nat) in
     if n = 34 then [CHR 0x5C, CHR 0x22]
     else if n = 92 then [CHR 0x5C, CHR 0x5C]
     else if n = 10 then [CHR 0x5C, CHR ''n'']
     else if n = 13 then [CHR 0x5C, CHR ''r'']
     else if n = 9 then [CHR 0x5C, CHR ''t'']
     else if n = 8 then [CHR 0x5C, CHR ''b'']
     else if n = 12 then [CHR 0x5C, CHR ''f'']
     else if 32 \<le> n \<and> n \<le> 126 then [c]
     else [CHR 0x5C, CHR ''u'', CHR ''0'', CHR ''0''] @ hex_byte c)"

definition encode_basestring_ascii :: "string \<Rightarrow> string" where
  "encode_basestring_ascii s = [CHR 0x22] @ concat (map escape_char s) @ [CHR 0x22]"

definition newline_indent :: "nat \<Rightarrow> string" where
  "newline_indent level = CHR 0x0A # replicate (4 * level) CHR '' ''"

fun dumps_at :: "nat \<Rightarrow> json \<Rightarrow> string" where
  "dumps_at level JNull = ''null''"
| "dumps_at level (JString s) = encode_basestring_ascii s"
| "dumps_at level (JList xs) =
     (if xs = [] then ''[]''
      else ''['' @ newline_indent (level + 1)
        @ join ('','' @ newline_indent (level + 1)) (map (dumps_at (level + 1)) xs)
        @ newline_indent level @ '']'')"
| "dumps_at level (JDict items) =
     (if items = [] then ''{}''
      else ''{'' @ newline_indent (level + 1)
        @ join ('','' @ newline_indent (level + 1))
            (map (\<lambda>kv. encode_basestring_ascii (fst kv) @ '': '' @ dumps_at (level + 1) (snd kv))
               (sort_key fst items))
        @ newline_indent level @ ''}'')"

definition json_dumps :: "json \<Rightarrow> string" where
  "json_dumps j = dumps_at 0 j"

subsection \<open>\<^verbatim>\<open>overall_info\<close>, \<^verbatim>\<open>overall_info_str\<close> and \<^verbatim>\<open>id\<close>\<close>

text \<open>
  The attributes \<^verbatim>\<open>_tracked_file_paths\<close> and \<^verbatim>\<open>_overall_info\<close> memoise values that are
  functions of the step and of the source tree. The model computes them from the step and
  the tree, which is fixed while a build runs.
\<close>

definition settings_json :: "(string \<times> string option) list \<Rightarrow> json" where
  "settings_json settings =
     JDict (map (\<lambda>kv. (fst kv, case snd kv of None \<Rightarrow> JNull | Some v \<Rightarrow> JString v)) settings)"

definition as_dict :: "docker_image_spec \<Rightarrow> json" where
  "as_dict spec =
     JDict [(''name'', JString (image_name spec)),
            (''architecture'', JString (arch_value (image_architecture spec)))]"

text \<open>
  \<^verbatim>\<open>BuildStep._init_overall_info\<close>, and the entry that
  \<^verbatim>\<open>ScriptBuildStep._init_overall_info\<close> adds for a base image.
\<close>

definition docker_image_entry :: "script_part option \<Rightarrow> (string \<times> json) list" where
  "docker_image_entry sc =
     (case sc of
        None \<Rightarrow> []
      | Some p \<Rightarrow> (case base_docker_image p of
                   None \<Rightarrow> []
                 | Some spec \<Rightarrow> [(''docker_image'', as_dict spec)]))"

fun overall_info :: "env \<Rightarrow> step \<Rightarrow> error + json" where
  "overall_info e (Step nm globs nocache deps settings base cach sc) =
     (case tracked_file_paths e (Step nm globs nocache deps settings base cach sc) of
        Inl err \<Rightarrow> Inl err
      | Inr tracked \<Rightarrow>
     (case calculate_files_checksum e tracked of
        Inl err \<Rightarrow> Inl err
      | Inr checksum \<Rightarrow>
     (case collect (map (overall_info e) deps) of
        Inl err \<Rightarrow> Inl err
      | Inr deps_info \<Rightarrow>
     (case (case base of None \<Rightarrow> Inr JNull | Some b \<Rightarrow> overall_info e b) of
        Inl err \<Rightarrow> Inl err
      | Inr base_info \<Rightarrow>
          Inr (JDict ([(''name'', JString nm),
                       (''used_files'', JList (map (\<lambda>p. JString (str_path p)) tracked)),
                       (''files_checksum'', JString checksum),
                       (''dependency_steps'', JList deps_info),
                       (''base_step'', base_info),
                       (''additional_settings'', settings_json settings)]
                      @ docker_image_entry sc))))))"

definition overall_info_str :: "env \<Rightarrow> step \<Rightarrow> error + string" where
  "overall_info_str e s =
     (case overall_info e s of Inl err \<Rightarrow> Inl err | Inr info \<Rightarrow> Inr (json_dumps info))"

definition step_id :: "env \<Rightarrow> step \<Rightarrow> error + string" where
  "step_id e s =
     (case overall_info_str e s of
        Inl err \<Rightarrow> Inl err
      | Inr info_str \<Rightarrow>
          (let h = sha256_update sha256_new (encode info_str);
               checksum = hexdigest (sha256_digest e) h
           in Inr (lower (name s @ ''__'' @ checksum))))"

subsection \<open>\<^verbatim>\<open>all_used_cacheable_steps\<close>\<close>

fun all_used_cacheable_steps :: "step \<Rightarrow> step list" where
  "all_used_cacheable_steps (Step nm globs nocache deps settings base cach sc) =
     concat (map all_used_cacheable_steps deps)
     @ (case base of None \<Rightarrow> [] | Some b \<Rightarrow> all_used_cacheable_steps b)
     @ (if cach then [Step nm globs nocache deps settings base cach sc] else [])"

definition all_used_cached_step_ids :: "env \<Rightarrow> step \<Rightarrow> error + string list" where
  "all_used_cached_step_ids e s = collect (map (step_id e) (all_used_cacheable_steps s))"

subsection \<open>The constructors\<close>

text \<open>
  \<^verbatim>\<open>ScriptBuildStep.__init__\<close> takes as \<^verbatim>\<open>base_step\<close> nothing, an image, or another step. With
  a script step as base, \<^verbatim>\<open>base_docker_image\<close> becomes that step's \<^verbatim>\<open>result_image\<close>: an
  image named by the base step's identity, when the base step runs in Docker itself.
  \<^verbatim>\<open>SimpleBuildStep.__init__\<close> only stores its base step.
\<close>

definition runs_in_docker :: "step \<Rightarrow> bool" where
  "runs_in_docker s =
     (case script s of None \<Rightarrow> False | Some sc \<Rightarrow> base_docker_image sc \<noteq> None)"

text \<open>\<^verbatim>\<open>result_image\<close>, given the step's identity; a step without script part has no such attribute.\<close>

definition result_image_named :: "string \<Rightarrow> step \<Rightarrow> error + docker_image_spec option" where
  "result_image_named sid s =
     (case script s of
        None \<Rightarrow> Inl AttributeError
      | Some sc \<Rightarrow>
          (case base_docker_image sc of
             None \<Rightarrow> Inr None
           | Some img \<Rightarrow> Inr (Some (DockerImageSpec sid (image_architecture img)))))"

definition result_image :: "env \<Rightarrow> step \<Rightarrow> error + docker_image_spec option" where
  "result_image e s =
     (if runs_in_docker s
      then (case step_id e s of Inl err \<Rightarrow> Inl err | Inr sid \<Rightarrow> result_image_named sid s)
      else result_image_named [] s)"

datatype base_arg = BaseStep step | BaseImage docker_image_spec

definition ScriptBuildStep ::
  "env \<Rightarrow> string \<Rightarrow> pypath list \<Rightarrow> bool \<Rightarrow> pypath \<Rightarrow> bool \<Rightarrow> base_arg option \<Rightarrow> step list
     \<Rightarrow> (string \<times> string option) list \<Rightarrow> bool \<Rightarrow> error + step" where
  "ScriptBuildStep e nm class_globs class_no_cache scr is_dep base deps settings cach =
     (case base of
        None \<Rightarrow> Inr (Step nm class_globs class_no_cache deps settings None cach
                 (Some (ScriptPart scr is_dep None)))
      | Some (BaseImage img) \<Rightarrow>
          Inr (Step nm class_globs class_no_cache deps settings None cach
                 (Some (ScriptPart scr is_dep (Some img))))
      | Some (BaseStep b) \<Rightarrow>
          (case (if script b \<noteq> None then result_image e b else Inr None) of
             Inl err \<Rightarrow> Inl err
           | Inr img \<Rightarrow>
               Inr (Step nm class_globs class_no_cache deps settings (Some b) cach
                      (Some (ScriptPart scr is_dep img)))))"

definition SimpleBuildStep ::
  "string \<Rightarrow> pypath list \<Rightarrow> bool \<Rightarrow> step option \<Rightarrow> step list
     \<Rightarrow> (string \<times> string option) list \<Rightarrow> bool \<Rightarrow> step" where
  "SimpleBuildStep nm class_globs class_no_cache base deps settings cach =
     Step nm class_globs class_no_cache deps settings base cach None"

section \<open>Running a step\<close>

subsection \<open>The build root and the commands\<close>

text \<open>
  What a run changes: the directories under \<^verbatim>\<open><build_root>/step_outputs\<close>, each with the
  files the engine writes into it (name and content, \<open>None\<close> for content that a command
  produces); the isolated source roots under \<^verbatim>\<open><build_root>/step_isolated_source_roots\<close> with
  the files copied into them; the commands issued; the glob lists written by
  \<^verbatim>\<open>logging.error\<close>; and, as a record of the execution, the identities of the steps whose
  \<^verbatim>\<open>_run\<close> was invoked. A step identity serves as a directory name; the model takes it as
  one path component, as the source does.
\<close>

record world =
  step_outputs :: "string \<rightharpoonup> (string \<times> string option) list"
  source_roots :: "string \<rightharpoonup> path list"
  commands :: "call list"
  error_log :: "string list list"
  run_calls :: "string list"

definition then_do ::
  "(error + 'a) \<times> world \<Rightarrow> ('a \<Rightarrow> world \<Rightarrow> (error + 'b) \<times> world) \<Rightarrow> (error + 'b) \<times> world" where
  "then_do r f = (case r of (Inl err, w) \<Rightarrow> (Inl err, w) | (Inr x, w) \<Rightarrow> f x w)"

text \<open>
  \<^verbatim>\<open>common.check_call_with_log\<close> and \<^verbatim>\<open>common.run_command\<close> raise when the command fails;
  \<^verbatim>\<open>common.check_output_with_log\<close> returns what it printed.
\<close>

definition check_output :: "env \<Rightarrow> call \<Rightarrow> world \<Rightarrow> (error + string) \<times> world" where
  "check_output e c w =
     (let w' = w\<lparr>commands := commands w @ [c]\<rparr> in
      case command_output e (commands w) c of
        None \<Rightarrow> (Inl CalledProcessError, w')
      | Some out \<Rightarrow> (Inr out, w'))"

definition check_call :: "env \<Rightarrow> call \<Rightarrow> world \<Rightarrow> (error + unit) \<times> world" where
  "check_call e c w = then_do (check_output e c w) (\<lambda>out w'. (Inr (), w'))"

definition isspace :: "char \<Rightarrow> bool" where
  "isspace c = ((of_char c :: nat) \<in> {9, 10, 11, 12, 13, 28, 29, 30, 31, 32, 133, 160})"

definition strip :: "string \<Rightarrow> string" where
  "strip s = rev (dropWhile isspace (rev (dropWhile isspace s)))"

definition output_directory :: "string \<Rightarrow> string \<Rightarrow> string" where
  "output_directory build_root sid = build_root @ ''/step_outputs/'' @ sid"

definition temp_name :: "string \<Rightarrow> string" where
  "temp_name sid = ''~'' @ sid"

definition temp_output_directory :: "string \<Rightarrow> string \<Rightarrow> string" where
  "temp_output_directory build_root sid = build_root @ ''/step_outputs/'' @ temp_name sid"

definition source_root_dir :: "string \<Rightarrow> string \<Rightarrow> string" where
  "source_root_dir build_root sid = build_root @ ''/step_isolated_source_roots/'' @ sid"

definition in_docker_dependency_outputs_path :: string where
  "in_docker_dependency_outputs_path = ''/tmp/step/dependencies''"

definition in_docker_source_root_path :: string where
  "in_docker_source_root_path = ''/tmp/agent_source''"

subsection \<open>\<^verbatim>\<open>DockerImageSpec.load_image\<close> and \<^verbatim>\<open>_check_for_cached_result\<close>\<close>

definition load_image :: "env \<Rightarrow> docker_image_spec \<Rightarrow> world \<Rightarrow> (error + unit) \<times> world" where
  "load_image e spec w =
     then_do (check_output e (Call [''docker'', ''images'', ''-q'', image_name spec] [] None) w)
       (\<lambda>out w1.
          if strip out \<noteq> [] then (Inr (), w1)
          else check_call e (Call [''docker'', ''load'', ''-i'', image_name spec] [] None) w1)"

definition check_for_cached_result ::
  "env \<Rightarrow> step \<Rightarrow> string \<Rightarrow> world \<Rightarrow> (error + bool) \<times> world" where
  "check_for_cached_result e s sid w =
     (let exists = (step_outputs w sid \<noteq> None) in
      case script s of
        None \<Rightarrow> (Inr exists, w)
      | Some sc \<Rightarrow>
          (if exists \<and> runs_in_docker s \<and> \<not> is_dependency_step sc
           then (case result_image_named sid s of
                   Inl err \<Rightarrow> (Inl err, w)
                 | Inr None \<Rightarrow> (Inl AttributeError, w)
                 | Inr (Some img) \<Rightarrow> then_do (load_image e img w) (\<lambda>u w1. (Inr exists, w1)))
           else (Inr exists, w)))"

subsection \<open>\<^verbatim>\<open>_get_command_line_args\<close>\<close>

definition interpreter :: "path \<Rightarrow> error + string list" where
  "interpreter rel_script_path =
     (if suffix_of rel_script_path = ''.ps1'' then Inr [''powershell'']
      else if suffix_of rel_script_path = ''.sh'' then Inr [''/bin/bash'']
      else if suffix_of rel_script_path = ''.py'' then Inr [''python3'']
      else Inl UnboundLocalError)"

definition get_command_line_args :: "env \<Rightarrow> string \<Rightarrow> step \<Rightarrow> error + string list" where
  "get_command_line_args e build_root s =
     (case script s of
        None \<Rightarrow> Inl AttributeError
      | Some sc \<Rightarrow>
     (case collect (map (step_id e) (dependency_steps s)) of
        Inl err \<Rightarrow> Inl err
      | Inr dep_ids \<Rightarrow>
     (let required_steps_outputs =
            map (\<lambda>d. if runs_in_docker s then in_docker_dependency_outputs_path @ ''/'' @ d
                      else output_directory build_root d) dep_ids
      in case relative_to (script_path sc) (SOURCE_ROOT e) of
           Inl err \<Rightarrow> Inl err
         | Inr rel_script_path \<Rightarrow>
             (case interpreter rel_script_path of
                Inl err \<Rightarrow> Inl err
              | Inr full_command_args \<Rightarrow>
                  Inr (full_command_args @ [str_path rel_script_path] @ required_steps_outputs)))))"

subsection \<open>\<^verbatim>\<open>_prepare_working_source_root\<close>, \<^verbatim>\<open>_run_locally\<close>, \<^verbatim>\<open>_run_in_docker\<close>\<close>

definition prepare_working_source_root ::
  "env \<Rightarrow> string \<Rightarrow> step \<Rightarrow> string \<Rightarrow> world \<Rightarrow> (error + unit) \<times> world" where
  "prepare_working_source_root e build_root s sid w =
     then_do
       (if source_roots w sid \<noteq> None
        then then_do (check_call e (Shell (''ls -al '' @ source_root_dir build_root sid @ ''/..'')) w)
               (\<lambda>u w1. (Inr (), w1\<lparr>source_roots := (source_roots w1)(sid := None)\<rparr>))
        else (Inr (), w))
       (\<lambda>u w1.
          (let w2 = w1\<lparr>source_roots := (source_roots w1)(sid \<mapsto> [])\<rparr> in
           case tracked_file_paths e s of
             Inl err \<Rightarrow> (Inl err, w2)
           | Inr tracked \<Rightarrow> (Inr (), w2\<lparr>source_roots := (source_roots w2)(sid \<mapsto> tracked)\<rparr>)))"

definition run_locally ::
  "env \<Rightarrow> string \<Rightarrow> step \<Rightarrow> string \<Rightarrow> world \<Rightarrow> (error + unit) \<times> world" where
  "run_locally e build_root s sid w =
     (case get_command_line_args e build_root s of
        Inl err \<Rightarrow> (Inl err, w)
      | Inr command_args \<Rightarrow>
          (let environ =
                 [(''STEP_OUTPUT_PATH'', temp_output_directory build_root sid)]
                 @ concat (map (\<lambda>kv. case snd kv of None \<Rightarrow> [] | Some v \<Rightarrow> [(fst kv, v)])
                     (additional_settings s))
                 @ [(''SOURCE_ROOT'', source_root_dir build_root sid)]
                 @ (if IN_CICD e then [(''IN_CICD'', ''1'')] else [])
           in check_call e
                (Call command_args environ (Some (source_root_dir build_root sid))) w))"

definition container_name :: string where
  "container_name = ''agent-build-deployment-step''"

definition write_file :: "string \<Rightarrow> string \<Rightarrow> string option \<Rightarrow> world \<Rightarrow> world" where
  "write_file dir file_name content w =
     (case step_outputs w dir of
        None \<Rightarrow> w
      | Some entries \<Rightarrow> w\<lparr>step_outputs := (step_outputs w)(dir \<mapsto> entries @ [(file_name, content)])\<rparr>)"

definition save_step_docker_container_as_image_if_needed ::
  "env \<Rightarrow> step \<Rightarrow> string \<Rightarrow> world \<Rightarrow> (error + unit) \<times> world" where
  "save_step_docker_container_as_image_if_needed e s sid w =
     (case script s of
        None \<Rightarrow> (Inl AttributeError, w)
      | Some sc \<Rightarrow>
          (if is_dependency_step sc then (Inr (), w)
           else (case result_image_named sid s of
                   Inl err \<Rightarrow> (Inl err, w)
                 | Inr None \<Rightarrow> (Inl AttributeError, w)
                 | Inr (Some img) \<Rightarrow>
                     then_do (check_call e (Call [''docker'', ''commit'', container_name, image_name img] [] None) w)
                       (\<lambda>u w1.
                          check_call e (Call [''docker'', ''save'', image_name img] [] None)
                            (write_file (temp_name sid) (sid @ ''.tar'') None w1)))))"

text \<open>The body of the \<^verbatim>\<open>try\<close> block of \<^verbatim>\<open>_run_in_docker\<close>.\<close>

definition docker_run_and_save ::
  "env \<Rightarrow> step \<Rightarrow> string \<Rightarrow> docker_image_spec option \<Rightarrow> string list \<Rightarrow> string list \<Rightarrow> string list
     \<Rightarrow> world \<Rightarrow> (error + unit) \<times> world" where
  "docker_run_and_save e s sid base_image volumes_mapping env_variables_options cmd_args w =
     (case base_image of
        None \<Rightarrow> (Inl AttributeError, w)
      | Some img \<Rightarrow>
          then_do
            (check_call e
               (Call ([''docker'', ''run'', ''-i'', ''--name'', container_name]
                      @ volumes_mapping
                      @ [''--platform'', as_docker_platform (image_architecture img)]
                      @ env_variables_options
                      @ [''--workdir'', in_docker_source_root_path, image_name img]
                      @ cmd_args) [] None) w)
            (\<lambda>u w1. save_step_docker_container_as_image_if_needed e s sid w1))"

definition run_in_docker ::
  "env \<Rightarrow> string \<Rightarrow> step \<Rightarrow> string \<Rightarrow> world \<Rightarrow> (error + unit) \<times> world" where
  "run_in_docker e build_root s sid w =
     (case get_command_line_args e build_root s of
        Inl err \<Rightarrow> (Inl err, w)
      | Inr cmd_args \<Rightarrow>
     then_do (check_call e (Call [''docker'', ''rm'', ''-f'', container_name] [] None) w)
       (\<lambda>u w1.
     (let env_variables_options =
            concat (map (\<lambda>kv. [''-e'', fst kv @ ''='' @ (case snd kv of None \<Rightarrow> ''None'' | Some v \<Rightarrow> v)])
                      (additional_settings s))
            @ [''-e'', ''STEP_OUTPUT_PATH=/tmp/step/output'',
               ''-e'', ''SOURCE_ROOT='' @ in_docker_source_root_path,
               ''-e'', ''AGENT_BUILD_IN_DOCKER=1'']
      in case (case base_step s of
                 Some b \<Rightarrow> result_image e b
               | None \<Rightarrow> Inr (case script s of None \<Rightarrow> None | Some sc \<Rightarrow> base_docker_image sc)) of
           Inl err \<Rightarrow> (Inl err, w1)
         | Inr base_image \<Rightarrow>
     (case collect (map (step_id e) (dependency_steps s)) of
        Inl err \<Rightarrow> (Inl err, w1)
      | Inr dep_ids \<Rightarrow>
     (let volumes_mapping =
            [''-v'', source_root_dir build_root sid @ '':'' @ in_docker_source_root_path,
             ''-v'', temp_output_directory build_root sid @ '':/tmp/step/output'']
            @ concat (map (\<lambda>d. [''-v'', output_directory build_root d @ '':''
                                      @ in_docker_dependency_outputs_path @ ''/'' @ d]) dep_ids);
          attempt = docker_run_and_save e s sid base_image volumes_mapping env_variables_options
                      cmd_args w1
      in case check_call e (Call [''docker'', ''rm'', ''-f'', container_name] [] None) (snd attempt) of
           (Inl err, w3) \<Rightarrow> (Inl err, w3)
         | (Inr u, w3) \<Rightarrow> (fst attempt, w3))))))"

subsection \<open>\<^verbatim>\<open>_run\<close>\<close>

text \<open>
  \<^verbatim>\<open>ScriptBuildStep._run\<close>; for a step without script part \<^verbatim>\<open>_run\<close> is the empty method of
  the base class. The invocation is recorded in \<open>run_calls\<close>.
\<close>

definition step_failed_message :: "string \<Rightarrow> string" where
  "step_failed_message sid =
     ''Step has failed. Step name: '' @ [CHR 0x27] @ sid @ [CHR 0x27] @ ''.''"

definition do_run :: "env \<Rightarrow> string \<Rightarrow> step \<Rightarrow> string \<Rightarrow> world \<Rightarrow> (error + unit) \<times> world" where
  "do_run e build_root s sid w0 =
     (let w = w0\<lparr>run_calls := run_calls w0 @ [sid]\<rparr> in
      case script s of
        None \<Rightarrow> (Inr (), w)
      | Some sc \<Rightarrow>
          then_do (prepare_working_source_root e build_root s sid w)
            (\<lambda>u w1.
               case (if runs_in_docker s \<and> \<not> IN_DOCKER e then run_in_docker e build_root s sid w1
                     else run_locally e build_root s sid w1) of
                 (Inr u, w2) \<Rightarrow> (Inr (), w2)
               | (Inl err, w2) \<Rightarrow>
                   (let globs = map str_pypath (tracked_file_globs s) in
                    (Inl (DeploymentStepError (step_failed_message sid)),
                     w2\<lparr>error_log := error_log w2 @ [globs]\<rparr>))))"

subsection \<open>\<^verbatim>\<open>run\<close>\<close>

text \<open>
  The \<^verbatim>\<open>else\<close> branch of \<^verbatim>\<open>run\<close> after the dependency steps and the base step have run: a
  fresh temporary directory, the step info file, \<^verbatim>\<open>_run\<close>, the marker file for CI/CD, and
  the rename of the temporary directory to the final one. \<^verbatim>\<open>rename\<close> replaces an empty
  directory and fails on any other.
\<close>

definition rename_temp_to_final :: "string \<Rightarrow> world \<Rightarrow> (error + unit) \<times> world" where
  "rename_temp_to_final sid w =
     (case step_outputs w (temp_name sid) of
        None \<Rightarrow> (Inl FileNotFoundError, w)
      | Some entries \<Rightarrow>
          (case step_outputs w sid of
             Some (x # xs) \<Rightarrow> (Inl OSError, w)
           | _ \<Rightarrow> (Inr (), w\<lparr>step_outputs :=
                       (step_outputs w)(temp_name sid := None, sid \<mapsto> entries)\<rparr>)))"

definition execute_and_commit ::
  "env \<Rightarrow> string \<Rightarrow> step \<Rightarrow> string \<Rightarrow> world \<Rightarrow> (error + unit) \<times> world" where
  "execute_and_commit e build_root s sid w =
     (case overall_info_str e s of
        Inl err \<Rightarrow> (Inl err, w\<lparr>step_outputs := (step_outputs w)(temp_name sid \<mapsto> [])\<rparr>)
      | Inr info_str \<Rightarrow>
          (let w1 = w\<lparr>step_outputs := (step_outputs w)(temp_name sid \<mapsto> [])\<rparr>;
               w2 = write_file (temp_name sid) ''step_info.txt'' (Some info_str) w1
           in then_do (do_run e build_root s sid w2)
                (\<lambda>u w3.
                   (let w4 = (if IN_CICD e \<and> NO_CI_CD_CACHE s
                              then write_file (temp_name sid) ''skip_cache_to_cicd'' (Some []) w3
                              else w3)
                    in rename_temp_to_final sid w4))))"

fun run :: "env \<Rightarrow> string \<Rightarrow> step \<Rightarrow> world \<Rightarrow> (error + unit) \<times> world"
  and run_each :: "env \<Rightarrow> string \<Rightarrow> step list \<Rightarrow> world \<Rightarrow> (error + unit) \<times> world" where
  "run e build_root (Step nm globs nocache deps settings base cach sc) w =
     (case step_id e (Step nm globs nocache deps settings base cach sc) of
        Inl err \<Rightarrow> (Inl err, w)
      | Inr sid \<Rightarrow>
     (case check_for_cached_result e (Step nm globs nocache deps settings base cach sc) sid w of
        (Inl err, w1) \<Rightarrow> (Inl err, w1)
      | (Inr True, w1) \<Rightarrow> (Inr (), w1)
      | (Inr False, w1) \<Rightarrow>
     (case run_each e build_root deps w1 of
        (Inl err, w2) \<Rightarrow> (Inl err, w2)
      | (Inr u, w2) \<Rightarrow>
     (case (case base of None \<Rightarrow> (Inr (), w2) | Some b \<Rightarrow> run e build_root b w2) of
        (Inl err, w3) \<Rightarrow> (Inl err, w3)
      | (Inr u, w3) \<Rightarrow>
          execute_and_commit e build_root (Step nm globs nocache deps settings base cach sc) sid w3))))"
| "run_each e build_root [] w = (Inr (), w)"
| "run_each e build_root (s # rest) w =
     (case run e build_root s w of
        (Inl err, w1) \<Rightarrow> (Inl err, w1)
      | (Inr u, w1) \<Rightarrow> run_each e build_root rest w1)"

section \<open>A small project to run the model on\<close>

text \<open>
  A source tree with three scripts, a data directory and an ignore file that excludes the
  directory \<^verbatim>\<open>tmp\<close>; glob patterns that match a path by its full name, or everything
  when the pattern is \<^verbatim>\<open>**/*\<close>; a stand-in for SHA-256 that returns the bytes it was given,
  so that it never maps two inputs to one digest; commands that succeed and print nothing.
\<close>

definition demo_tree :: "(path \<times> node) list" where
  "demo_tree =
     [([''.dockerignore''], File ''tmp''),
      ([''a.sh''], File ''echo a''),
      ([''b.sh''], File ''echo b''),
      ([''c.py''], File ''print(1)''),
      ([''notes.txt''], File ''n''),
      ([''lib''], Dir),
      ([''lib'', ''x.txt''], File ''x''),
      ([''tmp''], Dir),
      ([''tmp'', ''y.txt''], File ''y'')]"

definition demo_env :: env where
  "demo_env =
     \<lparr>sha256_digest = (\<lambda>b. b),
      command_output = (\<lambda>history c. Some []),
      SOURCE_ROOT = [''src''],
      tree = demo_tree,
      glob_matches = (\<lambda>pattern p. pattern = ''**/*'' \<or> pattern = str_path p),
      path_match = (\<lambda>p pattern. parts p \<noteq> [] \<and> last (parts p) = pattern),
      decode = Some,
      IN_DOCKER = False,
      IN_CICD = False\<rparr>"

definition demo_script :: "string \<Rightarrow> pypath" where
  "demo_script file_name = PyPath True [''src'', file_name]"

definition demo_A :: step where
  "demo_A = Step ''A'' [] False [] [] None True (Some (ScriptPart (demo_script ''a.sh'') False None))"

definition demo_B :: step where
  "demo_B = Step ''B'' [] False [demo_A] [] None True
     (Some (ScriptPart (demo_script ''b.sh'') False None))"

definition demo_C :: step where
  "demo_C = Step ''C'' [] False [demo_A] [(''MODE'', Some ''fast'')] None True
     (Some (ScriptPart (demo_script ''c.py'') False None))"

text \<open>A step that uses \<open>demo_A\<close> through two of its dependency steps.\<close>

definition demo_top :: step where
  "demo_top = Step ''Top'' [] False [demo_B, demo_C] [] None True None"

section \<open>Properties of the checksum\<close>

lemma checksum_loop_collect:
  "checksum_loop e h ps =
     (case collect (map (path_then_content e) ps) of
        Inl err \<Rightarrow> Inl err
      | Inr chunks \<Rightarrow> Inr (h @ concat chunks))"
proof (induction ps arbitrary: h)
  case Nil
  show ?case by simp
next
  case (Cons p ps)
  show ?case
  proof (cases "read_bytes e (root_join e p)")
    case (Inl err)
    then show ?thesis by (simp add: path_then_content_def)
  next
    case (Inr content)
    then show ?thesis
      by (simp add: path_then_content_def Cons.IH sha256_update_def split: sum.splits)
  qed
qed

text \<open>
  Claim C8. For every list of tracked paths, \<^verbatim>\<open>calculate_files_checksum\<close> is the SHA-256
  digest, in hexadecimal, of the bytes obtained by going through the paths in sorted order and
  taking, for each path, the bytes of its relative path string and then the bytes of the
  file's content; it fails exactly where reading one of the files fails, with that error.
\<close>

theorem calculate_files_checksum_refines_spec:
  "calculate_files_checksum e files = files_checksum_spec e files"
  by (simp add: calculate_files_checksum_def files_checksum_spec_def checksum_loop_collect
      sha256_new_def hexdigest_def sorted_sort_id split: sum.splits)

end
